theory Spec2Isabelle
  imports Main
begin

section \<open>Python values\<close>

text \<open>
  The three modules only handle \<^verbatim>\<open>None\<close>, booleans, integers and strings, so the
  value universe of the model is these four kinds. Floats and containers as values are
  outside it; objects with an \<^verbatim>\<open>__eq__\<close> of their own are added where the guard is
  taken on records that hold any object.
\<close>

datatype pyval = PyNone | PyBool bool | PyInt int | PyStr string

text \<open>
  Python's \<^verbatim>\<open>==\<close>. \<^verbatim>\<open>bool\<close> is a subclass of \<^verbatim>\<open>int\<close>, so
  \<^verbatim>\<open>False == 0\<close> and \<^verbatim>\<open>True == 1\<close> hold; \<^verbatim>\<open>None\<close> and strings are
  equal only to themselves.
\<close>

fun py_eq :: "pyval \<Rightarrow> pyval \<Rightarrow> bool" where
  "py_eq PyNone PyNone = True"
| "py_eq (PyBool a) (PyBool b) = (a = b)"
| "py_eq (PyBool a) (PyInt j) = ((if a then 1 else 0) = j)"
| "py_eq (PyInt i) (PyBool b) = (i = (if b then 1 else 0))"
| "py_eq (PyInt i) (PyInt j) = (i = j)"
| "py_eq (PyStr s) (PyStr t) = (s = t)"
| "py_eq _ _ = False"

text \<open>Decimal digits of a natural number, most significant first.\<close>

fun str_nat :: "nat \<Rightarrow> string" where
  "str_nat n =
     (if n < 10 then [char_of (48 + n)]
      else str_nat (n div 10) @ [char_of (48 + n mod 10)])"

declare str_nat.simps [simp del]

text \<open>
  \<^verbatim>\<open>str(v)\<close>, which is what a replacement field \<^verbatim>\<open>{v}\<close> of an f-string
  inserts for these kinds of value.
\<close>

fun py_str :: "pyval \<Rightarrow> string" where
  "py_str PyNone = ''None''"
| "py_str (PyBool b) = (if b then ''True'' else ''False'')"
| "py_str (PyInt i) = (if i < 0 then ''-'' @ str_nat (nat (- i)) else str_nat (nat i))"
| "py_str (PyStr s) = s"

section \<open>Dictionaries\<close>

text \<open>
  A \<^verbatim>\<open>dict\<close> with string keys is an association list in insertion order; a lookup
  takes the first entry of the key. Dictionaries built by \<open>setitem\<close> and \<open>update\<close> keep
  their keys distinct.
\<close>

type_synonym pydict = "(string \<times> pyval) list"

text \<open>\<^verbatim>\<open>d.get(key, default)\<close> and \<^verbatim>\<open>d.get(key)\<close>, whose default is \<^verbatim>\<open>None\<close>.\<close>

definition get_default :: "pydict \<Rightarrow> string \<Rightarrow> pyval \<Rightarrow> pyval" where
  "get_default d k dflt = (case map_of d k of None \<Rightarrow> dflt | Some v \<Rightarrow> v)"

definition get :: "pydict \<Rightarrow> string \<Rightarrow> pyval" where
  "get d k = get_default d k PyNone"

text \<open>
  \<^verbatim>\<open>d[k] = v\<close>: an existing key keeps its position and takes the new value, a new
  key goes to the end.
\<close>

fun setitem :: "string \<Rightarrow> pyval \<Rightarrow> pydict \<Rightarrow> pydict" where
  "setitem k v [] = [(k, v)]"
| "setitem k v ((k', v') # d) = (if k' = k then (k, v) # d else (k', v') # setitem k v d)"

text \<open>\<^verbatim>\<open>d.update(other)\<close>: the items of \<open>other\<close> are stored one by one, in its order.\<close>

definition update :: "pydict \<Rightarrow> pydict \<Rightarrow> pydict" where
  "update d other = fold (\<lambda>(k, v) acc. setitem k v acc) other d"

definition keys :: "pydict \<Rightarrow> string list" where
  "keys d = map fst d"

definition values_of :: "pydict \<Rightarrow> pyval list" where
  "values_of d = map snd d"

definition items :: "pydict \<Rightarrow> (string \<times> pyval) list" where
  "items d = d"

section \<open>decorators.py\<close>

text \<open>
  A Python callable of one argument may raise, and may read and change state of its own.
  It is a function from the argument and the state before the call to the outcome
  (\<open>Inl\<close> an exception, \<open>Inr\<close> the returned value) and the state after it.
\<close>

type_synonym ('e, 's) callable = "pydict \<Rightarrow> 's \<Rightarrow> ('e + pyval) \<times> 's"

text \<open>
  \<^verbatim>\<open>
  def require_login(func):
      def wrapper(user):
          if(user.get("isLoggedIn") == False):
              return "Access Denied"
          return func(user)
      return wrapper
  \<close>
\<close>

text \<open>
  On a dictionary with string keys and values of the kinds above, neither \<^verbatim>\<open>get\<close> nor
  \<^verbatim>\<open>==\<close> raises or touches any state, so on these records the guard has no outcome of
  its own besides the marker. Records that hold other objects come further down.
\<close>

definition wrapper :: "('e, 's) callable \<Rightarrow> ('e, 's) callable" where
  "wrapper func user s =
     (if py_eq (get user ''isLoggedIn'') (PyBool False)
      then (Inr (PyStr ''Access Denied''), s)
      else func user s)"

definition require_login :: "('e, 's) callable \<Rightarrow> ('e, 's) callable" where
  "require_login func = wrapper func"

text \<open>
  The function under the decorator:
  \<^verbatim>\<open>return f"Welcome {user.get("name")}. Access to the dashboard."\<close>
\<close>

definition dashboard_body :: "('e, 's) callable" where
  "dashboard_body user s =
     (Inr (PyStr (''Welcome '' @ py_str (get user ''name'') @ ''. Access to the dashboard.'')), s)"

definition access_dashboard :: "('e, 's) callable" where
  "access_dashboard = require_login dashboard_body"

definition user1 :: pydict where
  "user1 = [(''name'', PyStr ''Dheeraj''), (''isLoggedIn'', PyBool True)]"

definition user2 :: pydict where
  "user2 = [(''name'', PyStr ''Guest''), (''isLoggedIn'', PyBool False)]"

text \<open>
  A spy around a callable: the state gains a counter of the calls made to it.
\<close>

definition spy :: "('e, 's) callable \<Rightarrow> ('e, nat \<times> 's) callable" where
  "spy func user = (\<lambda>(n, s). case func user s of (r, s') \<Rightarrow> (r, (Suc n, s')))"

text \<open>A callable that always raises, and one whose result is the number of earlier calls.\<close>

definition failing :: "(string, 's) callable" where
  "failing user s = (Inl ''boom'', s)"

definition ticket :: "('e, nat) callable" where
  "ticket user s = (Inr (PyInt (int s)), Suc s)"

subsection \<open>The guard on records that hold any object\<close>

text \<open>
  Nothing in \<^verbatim>\<open>wrapper\<close> restricts what a record holds. \<^verbatim>\<open>x == False\<close> first asks the
  class of \<open>x\<close>, and the \<^verbatim>\<open>if\<close> then takes the truth value of the answer; for an instance
  of a class with an \<^verbatim>\<open>__eq__\<close> of its own either step may raise (a signalling NaN of
  \<^verbatim>\<open>decimal\<close> does: \<^verbatim>\<open>Decimal('sNaN') == False\<close> raises \<^verbatim>\<open>InvalidOperation\<close>). Such
  a value is \<open>Custom r\<close>, where \<open>r\<close> is what testing \<^verbatim>\<open>x == False\<close> comes to: \<open>Inl e\<close>
  when it raises \<open>e\<close>, \<open>Inr b\<close> when it answers with truth value \<open>b\<close>. The values of the
  four kinds above are \<open>Plain v\<close>.
\<close>

datatype 'e pyany = Plain pyval | Custom "'e + bool"

fun eq_False :: "'e pyany \<Rightarrow> 'e + bool" where
  "eq_False (Plain v) = Inr (py_eq v (PyBool False))"
| "eq_False (Custom r) = r"

type_synonym 'e anydict = "(string \<times> 'e pyany) list"

definition get_any :: "'e anydict \<Rightarrow> string \<Rightarrow> 'e pyany" where
  "get_any d k = (case map_of d k of None \<Rightarrow> Plain PyNone | Some v \<Rightarrow> v)"

type_synonym ('e, 's) any_callable = "'e anydict \<Rightarrow> 's \<Rightarrow> ('e + pyval) \<times> 's"

text \<open>
  \<^verbatim>\<open>wrapper\<close> once more, line by line, on such records: an exception of the test leaves
  \<^verbatim>\<open>wrapper\<close> before \<^verbatim>\<open>func\<close> is reached.
\<close>

definition wrapper_any :: "('e, 's) any_callable \<Rightarrow> ('e, 's) any_callable" where
  "wrapper_any func user s =
     (case eq_False (get_any user ''isLoggedIn'') of
        Inl e \<Rightarrow> (Inl e, s)
      | Inr b \<Rightarrow> if b then (Inr (PyStr ''Access Denied''), s) else func user s)"

text \<open>A record of plain values, seen as a record of any objects.\<close>

definition plain_record :: "pydict \<Rightarrow> 'e anydict" where
  "plain_record d = map (\<lambda>(k, v). (k, Plain v)) d"

text \<open>
  A callable that never raises and leaves a mark in the state, one that always raises, and
  the record \<^verbatim>\<open>{"name": "Guest", "isLoggedIn": Decimal('sNaN')}\<close>.
\<close>

definition quiet :: "('e, nat) any_callable" where
  "quiet user s = (Inr PyNone, Suc s)"

definition failing_any :: "(string, 's) any_callable" where
  "failing_any user s = (Inl ''boom'', s)"

definition snan_user :: "string anydict" where
  "snan_user = [(''name'', Plain (PyStr ''Guest'')), (''isLoggedIn'', Custom (Inl ''InvalidOperation''))]"

section \<open>dictionary.py\<close>

definition person :: pydict where
  "person = [(''name'', PyStr ''Alice''), (''age'', PyInt 25)]"

text \<open>The dictionary after \<^verbatim>\<open>person.update({"city": "NY"})\<close>.\<close>

definition person_updated :: pydict where
  "person_updated = update person [(''city'', PyStr ''NY'')]"

section \<open>lambda\_practice.py\<close>

text \<open>
  \<^verbatim>\<open>x ** n\<close> on integers. A non-negative exponent gives the exact integer power. A
  negative exponent leaves integer arithmetic: zero raises \<^verbatim>\<open>ZeroDivisionError\<close>, any
  other base is converted to a float and raised there, which this model records as
  \<open>FloatPow x n\<close> without computing it.
\<close>

datatype pow_result = IntVal int | FloatPow int int | ZeroDivisionError

definition py_pow :: "int \<Rightarrow> int \<Rightarrow> pow_result" where
  "py_pow x n =
     (if 0 \<le> n then IntVal (x ^ nat n)
      else if x = 0 then ZeroDivisionError
      else FloatPow x n)"

text \<open>\<^verbatim>\<open>square = lambda x:x*x\<close>, the first binding of the name.\<close>

definition square_lambda :: "int \<Rightarrow> int" where
  "square_lambda = (\<lambda>x. x * x)"

definition add :: "int \<Rightarrow> int \<Rightarrow> int" where
  "add = (\<lambda>a b. a + b)"

text \<open>
  \<^verbatim>\<open>def power(num): return lambda x:x**num\<close>, named \<open>power_fn\<close> here because
  \<open>power\<close> is the exponentiation of HOL.
\<close>

definition power_fn :: "int \<Rightarrow> (int \<Rightarrow> pow_result)" where
  "power_fn num = (\<lambda>x. py_pow x num)"

text \<open>\<^verbatim>\<open>square = power(2)\<close>, the second binding, and \<^verbatim>\<open>cube = power(3)\<close>.\<close>

definition square :: "int \<Rightarrow> pow_result" where
  "square = power_fn 2"

definition cube :: "int \<Rightarrow> pow_result" where
  "cube = power_fn 3"

definition nums :: "int list" where
  "nums = [1, 2, 3, 4]"

definition squares :: "pow_result list" where
  "squares = map (\<lambda>x. py_pow x 2) nums"

section \<open>Helper facts\<close>

lemma py_eq_False_iff: "py_eq v (PyBool False) \<longleftrightarrow> v = PyBool False \<or> v = PyInt 0"
  by (cases v) auto

lemma get_absent: "k \<notin> set (keys user) \<Longrightarrow> get user k = PyNone"
  by (simp add: get_def get_default_def keys_def map_of_eq_None_iff [THEN iffD2])

lemma get_present: "map_of user k = Some v \<Longrightarrow> get user k = v"
  by (simp add: get_def get_default_def)

lemma wrapper_denied:
  "py_eq (get user ''isLoggedIn'') (PyBool False) \<Longrightarrow>
   wrapper func user s = (Inr (PyStr ''Access Denied''), s)"
  by (simp add: wrapper_def)

lemma wrapper_permitted:
  "\<not> py_eq (get user ''isLoggedIn'') (PyBool False) \<Longrightarrow> wrapper func user s = func user s"
  by (simp add: wrapper_def)

lemma spy_apply: "spy func user (n, s) = (fst (func user s), (Suc n, snd (func user s)))"
  by (simp add: spy_def split: prod.splits)

lemma access_dashboard_apply:
  "access_dashboard user s =
     (if py_eq (get user ''isLoggedIn'') (PyBool False)
      then (Inr (PyStr ''Access Denied''), s)
      else (Inr (PyStr (''Welcome '' @ py_str (get user ''name'') @ ''. Access to the dashboard.'')), s))"
  by (simp add: access_dashboard_def require_login_def wrapper_def dashboard_body_def)

lemma map_of_plain_record:
  "map_of (plain_record d) k = map_option Plain (map_of d k)"
  by (induction d) (auto simp: plain_record_def)

lemma get_any_plain_record: "get_any (plain_record d) k = Plain (get d k)"
  by (simp add: get_any_def get_def get_default_def map_of_plain_record split: option.splits)

text \<open>On records of plain values the two renderings of \<^verbatim>\<open>wrapper\<close> are one function.\<close>

lemma wrapper_any_plain_record:
  "wrapper_any func (plain_record d) s = wrapper (\<lambda>u. func (plain_record u)) d s"
  by (simp add: wrapper_any_def wrapper_def get_any_plain_record)

text \<open>The values the comments of dictionary.py and lambda\_practice.py announce.\<close>

lemma person_views:
  "keys person = [''name'', ''age''] \<and>
   values_of person = [PyStr ''Alice'', PyInt 25] \<and>
   items person = [(''name'', PyStr ''Alice''), (''age'', PyInt 25)] \<and>
   get_default person ''age'' (PyInt 0) = PyInt 25 \<and>
   get_default person ''city'' (PyStr ''NA'') = PyStr ''NA''"
  by (simp add: person_def keys_def values_of_def items_def get_default_def)

lemma lambda_examples:
  "square_lambda 5 = 25 \<and> add 3 4 = 7 \<and> square 3 = IntVal 9 \<and> cube 3 = IntVal 27 \<and>
   squares = [IntVal 1, IntVal 4, IntVal 9, IntVal 16]"
  by (simp add: square_lambda_def add_def square_def cube_def power_fn_def py_pow_def
      squares_def nums_def)

section \<open>The access guard\<close>

text \<open>
  C1, as amended. The claim says that an identity record with no \<^verbatim>\<open>"isLoggedIn"\<close> key is
  denied. In the code the lookup of a missing key is \<^verbatim>\<open>None\<close>, and \<^verbatim>\<open>None == False\<close>
  is false, so the guard goes on to the wrapped operation: for every record without the key
  the guarded operation is the wrapped operation, called exactly once (the spy's counter
  goes up by one) and its outcome returned as it is.
\<close>

theorem absent_login_state_permitted:
  "''isLoggedIn'' \<notin> set (keys user) \<Longrightarrow>
   require_login func user s = func user s \<and>
   require_login (spy func) user (n, s) = (fst (func user s), (Suc n, snd (func user s)))"
  by (simp add: require_login_def wrapper_permitted get_absent spy_apply)

theorem absent_login_state_permitted_witness:
  "''isLoggedIn'' \<notin> set (keys [(''name'', PyStr ''Guest'')]) \<and>
   require_login (dashboard_body :: (string, unit) callable) [(''name'', PyStr ''Guest'')] ()
     = (Inr (PyStr ''Welcome Guest. Access to the dashboard.''), ()) \<and>
   require_login (spy (dashboard_body :: (string, unit) callable)) [(''name'', PyStr ''Guest'')] (0, ())
     = (Inr (PyStr ''Welcome Guest. Access to the dashboard.''), (Suc 0, ()))"
  using absent_login_state_permitted [of "[(''name'', PyStr ''Guest'')]"
      "dashboard_body :: (string, unit) callable" "()" 0]
  by (simp add: dashboard_body_def get_def get_default_def keys_def)

text \<open>
  C1 as stated fails at the record \<^verbatim>\<open>{"name": "Guest"}\<close>: the guarded dashboard does not
  return the marker, and the spy has counted one call of the wrapped operation.
\<close>

theorem absent_login_state_counterexample:
  "''isLoggedIn'' \<notin> set (keys [(''name'', PyStr ''Guest'')]) \<and>
   require_login (spy (dashboard_body :: (string, unit) callable)) [(''name'', PyStr ''Guest'')] (0, ())
     = (Inr (PyStr ''Welcome Guest. Access to the dashboard.''), (Suc 0, ())) \<and>
   require_login (spy (dashboard_body :: (string, unit) callable)) [(''name'', PyStr ''Guest'')] (0, ())
     \<noteq> (Inr (PyStr ''Access Denied''), (0, ()))"
  by (simp add: require_login_def wrapper_def spy_def dashboard_body_def get_def get_default_def
      keys_def)

text \<open>
  C2, as amended. The claim says that every value of \<^verbatim>\<open>"isLoggedIn"\<close> other than the
  boolean \<^verbatim>\<open>False\<close> is permitted, the integer \<^verbatim>\<open>0\<close> included. The test is
  \<^verbatim>\<open>== False\<close>, and \<^verbatim>\<open>0 == False\<close> holds in Python. What holds: every value that is
  neither \<^verbatim>\<open>False\<close> nor \<^verbatim>\<open>0\<close> (so \<^verbatim>\<open>None\<close>, every string, \<^verbatim>\<open>True\<close> and every
  other integer) is permitted, and the wrapped operation is called once.
\<close>

theorem unequal_to_False_permitted:
  "map_of user ''isLoggedIn'' = Some v \<Longrightarrow> v \<noteq> PyBool False \<Longrightarrow> v \<noteq> PyInt 0 \<Longrightarrow>
   require_login func user s = func user s \<and>
   require_login (spy func) user (n, s) = (fst (func user s), (Suc n, snd (func user s)))"
  by (simp add: require_login_def wrapper_permitted get_present py_eq_False_iff spy_apply)

theorem unequal_to_False_permitted_witness:
  "require_login (dashboard_body :: (string, unit) callable)
       [(''name'', PyStr ''Guest''), (''isLoggedIn'', PyStr [])] ()
     = (Inr (PyStr ''Welcome Guest. Access to the dashboard.''), ()) \<and>
   require_login (spy (dashboard_body :: (string, unit) callable))
       [(''name'', PyStr ''Guest''), (''isLoggedIn'', PyNone)] (0, ())
     = (Inr (PyStr ''Welcome Guest. Access to the dashboard.''), (Suc 0, ()))"
  using unequal_to_False_permitted [of "[(''name'', PyStr ''Guest''), (''isLoggedIn'', PyStr [])]"
      "PyStr []" "dashboard_body :: (string, unit) callable" "()" 0]
    unequal_to_False_permitted [of "[(''name'', PyStr ''Guest''), (''isLoggedIn'', PyNone)]"
      PyNone "dashboard_body :: (string, unit) callable" "()" 0]
  by (simp add: dashboard_body_def get_def get_default_def)

text \<open>
  C2 as stated fails at \<^verbatim>\<open>{"name": "Guest", "isLoggedIn": 0}\<close>: the value is present and is
  not the boolean \<^verbatim>\<open>False\<close>, yet the guard returns the marker and the spy has counted no
  call.
\<close>

theorem falsy_login_state_counterexample:
  "map_of [(''name'', PyStr ''Guest''), (''isLoggedIn'', PyInt 0)] ''isLoggedIn'' = Some (PyInt 0) \<and>
   PyInt 0 \<noteq> PyBool False \<and>
   require_login (spy (dashboard_body :: (string, unit) callable))
       [(''name'', PyStr ''Guest''), (''isLoggedIn'', PyInt 0)] (0, ())
     = (Inr (PyStr ''Access Denied''), (0, ()))"
  by (simp add: require_login_def wrapper_def get_def get_default_def)

text \<open>
  C3. For every identity record whose \<^verbatim>\<open>"isLoggedIn"\<close> is the boolean \<^verbatim>\<open>False\<close>, the
  guarded operation returns \<^verbatim>\<open>"Access Denied"\<close> and leaves the state as it was, whatever
  the wrapped operation is; around a spy, the count of calls stays where it was.
\<close>

theorem logged_out_denied:
  "map_of user ''isLoggedIn'' = Some (PyBool False) \<Longrightarrow>
   require_login func user s = (Inr (PyStr ''Access Denied''), s) \<and>
   require_login (spy func) user (n, s) = (Inr (PyStr ''Access Denied''), (n, s))"
  by (simp add: require_login_def wrapper_denied get_present)

theorem logged_out_denied_witness:
  "map_of user2 ''isLoggedIn'' = Some (PyBool False) \<and>
   require_login (ticket :: (string, nat) callable) user2 5 = (Inr (PyStr ''Access Denied''), 5) \<and>
   require_login (spy (ticket :: (string, nat) callable)) user2 (0, 5)
     = (Inr (PyStr ''Access Denied''), (0, 5))"
  using logged_out_denied [of user2 "ticket :: (string, nat) callable" 5 0]
  by (simp add: user2_def)

text \<open>
  C4. For every identity record whose \<^verbatim>\<open>"isLoggedIn"\<close> is the boolean \<^verbatim>\<open>True\<close>, the
  guarded operation returns what the wrapped operation returns for that record: the same
  value or exception, and the same state after it.
\<close>

theorem logged_in_delegates:
  "map_of user ''isLoggedIn'' = Some (PyBool True) \<Longrightarrow> require_login func user s = func user s"
  by (simp add: require_login_def wrapper_permitted get_present)

theorem logged_in_delegates_witness:
  "map_of user1 ''isLoggedIn'' = Some (PyBool True) \<and>
   require_login (ticket :: (string, nat) callable) user1 5 = (Inr (PyInt 5), 6) \<and>
   require_login (failing :: (string, nat) callable) user1 5 = (Inl ''boom'', 5)"
  using logged_in_delegates [of user1 "ticket :: (string, nat) callable" 5]
    logged_in_delegates [of user1 "failing :: (string, nat) callable" 5]
  by (simp add: user1_def ticket_def failing_def)

text \<open>
  C5. For \<^verbatim>\<open>user2 = {"name": "Guest", "isLoggedIn": False}\<close> the guarded dashboard returns
  the string \<^verbatim>\<open>"Access Denied"\<close>.
\<close>

theorem guest_access_denied:
  "access_dashboard user2 s = (Inr (PyStr ''Access Denied''), s)"
  by (simp add: access_dashboard_apply user2_def get_def get_default_def)

text \<open>
  C6. For \<^verbatim>\<open>user1 = {"name": "Dheeraj", "isLoggedIn": True}\<close> the guarded dashboard
  returns the string \<^verbatim>\<open>"Welcome Dheeraj. Access to the dashboard."\<close>.
\<close>

theorem dheeraj_welcome:
  "access_dashboard user1 s = (Inr (PyStr ''Welcome Dheeraj. Access to the dashboard.''), s)"
  by (simp add: access_dashboard_apply user1_def get_def get_default_def)

text \<open>
  C7, as amended. The guard is deterministic and keeps no state of its own. Of two calls of
  the guarded operation in a row on the same identity record, on a denied record both
  return the marker and leave the state as it was, and on a permitted record they are
  exactly the two calls in a row of the wrapped operation. So the two outcomes are the same
  whenever the two outcomes of the wrapped operation are, and for the guarded dashboard
  they are the same for every record and every state.
\<close>

theorem guard_repeatable:
  "access_dashboard user (snd (access_dashboard user s)) = access_dashboard user s \<and>
   snd (access_dashboard user s) = s \<and>
   (py_eq (get user ''isLoggedIn'') (PyBool False) \<longrightarrow>
      require_login func user s = (Inr (PyStr ''Access Denied''), s) \<and>
      require_login func user (snd (require_login func user s))
        = (Inr (PyStr ''Access Denied''), s)) \<and>
   (\<not> py_eq (get user ''isLoggedIn'') (PyBool False) \<longrightarrow>
      require_login func user s = func user s \<and>
      require_login func user (snd (require_login func user s))
        = func user (snd (func user s))) \<and>
   (fst (func user (snd (func user s))) = fst (func user s) \<longrightarrow>
      fst (require_login func user (snd (require_login func user s)))
        = fst (require_login func user s))"
  by (simp add: require_login_def wrapper_def access_dashboard_apply)

theorem guard_repeatable_witness:
  "py_eq (get user2 ''isLoggedIn'') (PyBool False) \<and>
   require_login (ticket :: (string, nat) callable) user2 0 = (Inr (PyStr ''Access Denied''), 0) \<and>
   require_login (ticket :: (string, nat) callable) user2
       (snd (require_login (ticket :: (string, nat) callable) user2 0))
     = (Inr (PyStr ''Access Denied''), 0) \<and>
   \<not> py_eq (get user1 ''isLoggedIn'') (PyBool False) \<and>
   require_login (ticket :: (string, nat) callable) user1 0 = (Inr (PyInt 0), 1) \<and>
   require_login (ticket :: (string, nat) callable) user1
       (snd (require_login (ticket :: (string, nat) callable) user1 0))
     = (Inr (PyInt 1), 2) \<and>
   fst (dashboard_body user1 (snd (dashboard_body user1 ())))
     = (fst (dashboard_body user1 ()) :: string + pyval) \<and>
   fst (require_login (dashboard_body :: (string, unit) callable) user1
          (snd (require_login (dashboard_body :: (string, unit) callable) user1 ())))
     = fst (require_login (dashboard_body :: (string, unit) callable) user1 ()) \<and>
   fst (require_login (dashboard_body :: (string, unit) callable) user1 ())
     = Inr (PyStr ''Welcome Dheeraj. Access to the dashboard.'')"
  using guard_repeatable [of user2 0 "ticket :: (string, nat) callable"]
    guard_repeatable [of user1 0 "ticket :: (string, nat) callable"]
    guard_repeatable [of user1 "()" "dashboard_body :: (string, unit) callable"]
  by (simp add: require_login_def wrapper_def dashboard_body_def ticket_def user1_def user2_def
      get_def get_default_def)

text \<open>
  C7 as stated fails for a wrapped operation that changes its result from one call to the
  next: behind the guard, \<open>ticket\<close> returns 0 and then 1 for \<open>user1\<close>.
\<close>

theorem guard_repeatable_counterexample:
  "require_login (ticket :: (string, nat) callable) user1 0 = (Inr (PyInt 0), 1) \<and>
   require_login (ticket :: (string, nat) callable) user1
       (snd (require_login (ticket :: (string, nat) callable) user1 0))
     = (Inr (PyInt 1), 2) \<and>
   fst (require_login (ticket :: (string, nat) callable) user1
          (snd (require_login (ticket :: (string, nat) callable) user1 0)))
     \<noteq> fst (require_login (ticket :: (string, nat) callable) user1 0)"
  by (simp add: require_login_def wrapper_def ticket_def user1_def get_def get_default_def)

text \<open>
  C8, as amended. The claim says that the guard raises nothing on any mapping record. The
  guard's own test \<^verbatim>\<open>user.get("isLoggedIn") == False\<close> raises when the class of the stored
  value makes it raise, and then the wrapped operation is not reached. What holds: on every
  record whose test does not raise (it answers \<open>b\<close>), the guard raises nothing of its own.
  When the test denies, the marker is returned normally, whatever the wrapped operation
  would have done; when it permits, the guarded operation is the wrapped one; and an
  exception out of the guarded operation is the wrapped operation's own, with its state.
  The test does not raise on any record of plain values (\<^verbatim>\<open>None\<close>, booleans, integers,
  strings, or the key missing). When the test raises, that exception leaves the guard with
  the state as it was, before the wrapped operation is called.
\<close>

theorem guard_raises_nothing:
  "(eq_False (get_any user ''isLoggedIn'') = Inr b \<longrightarrow>
      (b \<longrightarrow> wrapper_any func user s = (Inr (PyStr ''Access Denied''), s)) \<and>
      (\<not> b \<longrightarrow> wrapper_any func user s = func user s) \<and>
      (wrapper_any func user s = (Inl e, s') \<longrightarrow> \<not> b \<and> func user s = (Inl e, s'))) \<and>
   (eq_False (get_any user ''isLoggedIn'') = Inl e \<longrightarrow> wrapper_any func user s = (Inl e, s)) \<and>
   eq_False (get_any (plain_record d) ''isLoggedIn'' :: 'e pyany)
     = Inr (py_eq (get d ''isLoggedIn'') (PyBool False))"
  by (auto simp: wrapper_any_def get_any_plain_record)

theorem guard_raises_nothing_witness:
  "eq_False (get_any (plain_record user2 :: string anydict) ''isLoggedIn'') = Inr True \<and>
   wrapper_any (failing_any :: (string, nat) any_callable) (plain_record user2) 7
     = (Inr (PyStr ''Access Denied''), 7) \<and>
   eq_False (get_any (plain_record user1 :: string anydict) ''isLoggedIn'') = Inr False \<and>
   wrapper_any (failing_any :: (string, nat) any_callable) (plain_record user1) 7
     = (Inl ''boom'', 7) \<and>
   (failing_any :: (string, nat) any_callable) (plain_record user1) 7 = (Inl ''boom'', 7) \<and>
   eq_False (get_any snan_user ''isLoggedIn'') = Inl ''InvalidOperation'' \<and>
   wrapper_any (failing_any :: (string, nat) any_callable) snan_user 7
     = (Inl ''InvalidOperation'', 7)"
proof -
  have denied: "eq_False (get_any (plain_record user2 :: string anydict) ''isLoggedIn'') = Inr True"
    by (simp add: get_any_plain_record user2_def get_def get_default_def)
  have permitted:
    "eq_False (get_any (plain_record user1 :: string anydict) ''isLoggedIn'') = Inr False"
    by (simp add: get_any_plain_record user1_def get_def get_default_def)
  have raising: "eq_False (get_any snan_user ''isLoggedIn'') = Inl ''InvalidOperation''"
    by (simp add: snan_user_def get_any_def)
  show ?thesis
    using denied permitted raising
      guard_raises_nothing [of "plain_record user2 :: string anydict" True
        "failing_any :: (string, nat) any_callable" 7 "''boom''" 7 user1]
      guard_raises_nothing [of "plain_record user1 :: string anydict" False
        "failing_any :: (string, nat) any_callable" 7 "''boom''" 7 user1]
      guard_raises_nothing [of snan_user True
        "failing_any :: (string, nat) any_callable" 7 "''InvalidOperation''" 7 user1]
    by (auto simp: failing_any_def)
qed

text \<open>
  C8 as stated fails at \<^verbatim>\<open>{"name": "Guest", "isLoggedIn": Decimal('sNaN')}\<close>: the guarded
  operation ends in the exception of the guard's own comparison, although the wrapped
  operation raises nothing there and, its mark missing from the state, was not called.
\<close>

theorem guard_raises_nothing_counterexample:
  "wrapper_any quiet snan_user 0 = (Inl ''InvalidOperation'', 0) \<and>
   quiet snan_user 0 = (Inr PyNone, Suc 0)"
  by (simp add: wrapper_any_def quiet_def snan_user_def get_any_def)

section \<open>The dictionary after the merge\<close>

text \<open>
  C9. After \<^verbatim>\<open>person.update({"city": "NY"})\<close> on \<^verbatim>\<open>{"name": "Alice", "age": 25}\<close> the
  keys \<^verbatim>\<open>"name"\<close> and \<^verbatim>\<open>"age"\<close> map to what they mapped to before, no key is gone (the
  old keys stand in their order, followed by the new one), and \<^verbatim>\<open>"city"\<close> maps to
  \<^verbatim>\<open>"NY"\<close>.
\<close>

theorem person_update_frame:
  "person_updated = [(''name'', PyStr ''Alice''), (''age'', PyInt 25), (''city'', PyStr ''NY'')] \<and>
   map_of person_updated ''name'' = map_of person ''name'' \<and>
   map_of person_updated ''age'' = map_of person ''age'' \<and>
   get person_updated ''name'' = PyStr ''Alice'' \<and>
   get person_updated ''age'' = PyInt 25 \<and>
   get person_updated ''city'' = PyStr ''NY'' \<and>
   keys person_updated = keys person @ [''city'']"
  by (simp add: person_updated_def person_def update_def get_def get_default_def keys_def)

section \<open>The closure returned by power\<close>

text \<open>
  C10. For every integer \<open>x\<close> and exponent \<open>n\<close>, \<^verbatim>\<open>power(n)(x)\<close> is \<^verbatim>\<open>x ** n\<close>; for a
  non-negative exponent that is the integer \<open>x\<close> to the \<open>n\<close>; and \<^verbatim>\<open>power(2)\<close>, the second
  binding of \<^verbatim>\<open>square\<close>, returns \<open>x * x\<close> for every integer \<open>x\<close>, as the anonymous function
  of the first binding does.
\<close>

theorem power_closure:
  "power_fn n x = py_pow x n \<and>
   power_fn (int k) x = IntVal (x ^ k) \<and>
   power_fn 2 x = IntVal (x * x) \<and>
   square x = IntVal (square_lambda x)"
  by (simp add: power_fn_def square_def py_pow_def square_lambda_def power2_eq_square)

end
